theory Spec2Isabelle
  imports Main "HOL-Library.Sublist"
begin

section \<open>The audio relay handler of \<open>main.py\<close>\<close>

text \<open>
  The repository is one FastAPI module. Its only operation with behaviour worth verifying
  is \<open>gerar_audio_endpoint\<close>: check the access key, check the voice selector, synthesise
  speech into a local file, upload that file, delete it, and translate every exception
  into an \<open>HTTPException\<close>.

  Python strings are modelled as \<^typ>\<open>string\<close> holding their UTF-8 bytes, so the accented
  letters of the Portuguese messages are two bytes each. Equality, concatenation and
  dictionary lookup of strings are the same on the UTF-8 form.
\<close>

subsection \<open>Values, exceptions, requests\<close>

text \<open>The Python values that a hosting provider's result dictionary may hold.\<close>

datatype pyval =
    PNone
  | PStr string
  | PInt int
  | PBool bool
  | PList "pyval list"

text \<open>
  The exceptions that can travel through the handler, each with the text \<open>str(e)\<close> gives.
  \<open>HTTPException\<close> (status code, detail) and \<open>CloudinaryError\<close> (the class
  \<open>cloudinary.exceptions.Error\<close>), \<open>KeyError\<close> and \<open>OSError\<close> (with its subclasses
  \<open>IsADirectoryError\<close>, \<open>PermissionError\<close> and \<open>FileNotFoundError\<close>) derive from
  \<open>Exception\<close>; \<open>OtherException\<close> stands for every other subclass of \<open>Exception\<close>;
  \<open>BaseExceptionOnly\<close> stands for the classes that derive from \<open>BaseException\<close>
  but not from \<open>Exception\<close> (a cancelled task, a keyboard interrupt).
\<close>

datatype exn =
    HTTPException int string
  | CloudinaryError string
  | KeyError string
  | OSError string
  | OtherException string
  | BaseExceptionOnly string

fun is_cloudinary_Error :: "exn \<Rightarrow> bool" where
  "is_cloudinary_Error (CloudinaryError m) = True"
| "is_cloudinary_Error e = False"

fun is_Exception :: "exn \<Rightarrow> bool" where
  "is_Exception (BaseExceptionOnly m) = False"
| "is_Exception e = True"

fun str :: "exn \<Rightarrow> string" where
  "str (HTTPException c d) = d"
| "str (CloudinaryError m) = m"
| "str (KeyError m) = m"
| "str (OSError m) = m"
| "str (OtherException m) = m"
| "str (BaseExceptionOnly m) = m"

text \<open>\<open>class TextRequest(BaseModel)\<close>: three required string fields.\<close>

record TextRequest =
  uuid :: string
  "text" :: string
  voice_type :: string

text \<open>The module constant \<open>VOZES\<close>, a dictionary from voice selector to provider voice.\<close>

definition VOZES :: "string \<rightharpoonup> string" where
  "VOZES = [''male'' \<mapsto> ''pt-BR-AntonioNeural'', ''female'' \<mapsto> ''pt-BR-FranciscaNeural'']"

text \<open>\<open>d[k]\<close> raises \<open>KeyError\<close> on a missing key; \<open>d.get(k)\<close> gives \<open>None\<close> instead.\<close>

definition dict_getitem :: "(string \<rightharpoonup> 'v) \<Rightarrow> string \<Rightarrow> exn + 'v" where
  "dict_getitem d k = (case d k of None \<Rightarrow> Inl (KeyError k) | Some v \<Rightarrow> Inr v)"

definition dict_get :: "(string \<rightharpoonup> pyval) \<Rightarrow> string \<Rightarrow> pyval" where
  "dict_get d k = (case d k of None \<Rightarrow> PNone | Some v \<Rightarrow> v)"

subsection \<open>The world outside the handler\<close>

text \<open>
  The local directory maps each path at which something exists to what is there: a regular
  file that the process may delete, a directory, or a file that the process is not allowed
  to delete. The two providers are opaque: each is a function of its arguments and of the
  directory it finds, and yields either an exception or a result together with the
  directory it leaves behind. The handler calls each provider at most once, so quantifying
  over these functions covers every behaviour a provider can show during one request. Every
  call is also appended to a log.
\<close>

datatype entry = RegularFile | Directory | ProtectedFile

datatype call =
    Synthesis string string string
  | Upload string string string

record world =
  files :: "string \<rightharpoonup> entry"
  calls :: "call list"

record providers =
  edge_tts_save ::
    "string \<Rightarrow> string \<Rightarrow> string \<Rightarrow> (string \<rightharpoonup> entry) \<Rightarrow> exn option \<times> (string \<rightharpoonup> entry)"
  cloudinary_upload ::
    "string \<Rightarrow> string \<Rightarrow> string \<Rightarrow> (string \<rightharpoonup> entry) \<Rightarrow>
       (exn + (string \<rightharpoonup> pyval)) \<times> (string \<rightharpoonup> entry)"

fun is_synthesis :: "call \<Rightarrow> bool" where
  "is_synthesis (Synthesis t v f) = True"
| "is_synthesis (Upload f r p) = False"

fun is_upload :: "call \<Rightarrow> bool" where
  "is_upload (Upload f r p) = True"
| "is_upload (Synthesis t v f) = False"

text \<open>
  \<open>os.path.exists\<close> is true of a file and of a directory alike. \<open>os.remove\<close> unlinks a
  regular file; on a directory, on a file the process may not delete and on a missing path
  it raises a subclass of \<open>OSError\<close> and leaves the directory as it was.
\<close>

definition os_path_exists :: "string \<Rightarrow> world \<Rightarrow> bool" where
  "os_path_exists file_name w = (files w file_name \<noteq> None)"

definition os_remove :: "string \<Rightarrow> world \<Rightarrow> (exn + unit) \<times> world" where
  "os_remove file_name w =
     (case files w file_name of
        None \<Rightarrow> (Inl (OSError ''No such file or directory''), w)
      | Some RegularFile \<Rightarrow> (Inr (), w\<lparr>files := (files w)(file_name := None)\<rparr>)
      | Some Directory \<Rightarrow> (Inl (OSError ''Is a directory''), w)
      | Some ProtectedFile \<Rightarrow> (Inl (OSError ''Operation not permitted''), w))"

text \<open>
  What is at a path does not stand in the way of \<open>os.remove\<close>: nothing is there, or a
  regular file that the process may delete.
\<close>

definition removable_or_absent :: "string \<Rightarrow> world \<Rightarrow> bool" where
  "removable_or_absent file_name w =
     (files w file_name = None \<or> files w file_name = Some RegularFile)"

text \<open>
  \<open>async def gerar_audio(text, voice_type, file_name)\<close>: build the communicator and save
  the audio to \<open>file_name\<close>. Both steps belong to the synthesis provider.
\<close>

definition gerar_audio ::
  "providers \<Rightarrow> string \<Rightarrow> string \<Rightarrow> string \<Rightarrow> world \<Rightarrow> (exn + unit) \<times> world" where
  "gerar_audio env txt voice file_name w =
     (case edge_tts_save env txt voice file_name (files w) of
        (r, fs) \<Rightarrow>
          ((case r of None \<Rightarrow> Inr () | Some e \<Rightarrow> Inl e),
           w\<lparr>files := fs, calls := calls w @ [Synthesis txt voice file_name]\<rparr>))"

text \<open>\<open>cloudinary.uploader.upload(file_name, resource_type=..., public_id=...)\<close>.\<close>

definition uploader_upload ::
  "providers \<Rightarrow> string \<Rightarrow> string \<Rightarrow> string \<Rightarrow> world \<Rightarrow> (exn + (string \<rightharpoonup> pyval)) \<times> world" where
  "uploader_upload env file_name resource_type public_id w =
     (case cloudinary_upload env file_name resource_type public_id (files w) of
        (r, fs) \<Rightarrow>
          (r, w\<lparr>files := fs, calls := calls w @ [Upload file_name resource_type public_id]\<rparr>))"

subsection \<open>The messages\<close>

definition chave_invalida :: string where
  "chave_invalida = ''Chave inv'' @ [CHR 0xC3, CHR 0xA1] @ ''lida!''"

definition voz_invalida :: string where
  "voz_invalida =
     ''Voz inv'' @ [CHR 0xC3, CHR 0xA1] @ ''lida. Use '' @ [CHR 0x27] @ ''male'' @ [CHR 0x27]
       @ '' ou '' @ [CHR 0x27] @ ''female'' @ [CHR 0x27] @ ''.''"

definition audio_nao_gerado :: string where
  "audio_nao_gerado =
     ''Arquivo de '' @ [CHR 0xC3, CHR 0xA1] @ ''udio n'' @ [CHR 0xC3, CHR 0xA3]
       @ ''o foi gerado.''"

definition erro_interno :: string where
  "erro_interno = ''Erro interno do servidor''"

subsection \<open>The handler\<close>

text \<open>
  The body of the \<open>try\<close> block (source lines 60 to 83). The log lines written with
  \<open>print\<close> are left out: they go to the process's standard output and no result depends
  on them.
\<close>

definition try_block :: "providers \<Rightarrow> TextRequest \<Rightarrow> string \<Rightarrow> world \<Rightarrow> (exn + pyval) \<times> world" where
  "try_block env dados file_name w =
     (case dict_getitem VOZES (voice_type dados) of
        Inl e \<Rightarrow> (Inl e, w)
      | Inr voice \<Rightarrow>
          (case gerar_audio env (text dados) voice file_name w of
             (Inl e, w1) \<Rightarrow> (Inl e, w1)
           | (Inr u, w1) \<Rightarrow>
               if \<not> os_path_exists file_name w1
               then (Inl (HTTPException 500 audio_nao_gerado), w1)
               else
                 (case uploader_upload env file_name ''video'' (uuid dados) w1 of
                    (Inl e, w2) \<Rightarrow> (Inl e, w2)
                  | (Inr upload_result, w2) \<Rightarrow> (Inr (dict_get upload_result ''secure_url''), w2))))"

text \<open>
  The two \<open>except\<close> clauses, tried in the order of the source: the provider's error
  class first, then \<open>Exception\<close>. An exception matched by neither leaves the handler as it
  is.
\<close>

definition except_clauses :: "exn \<Rightarrow> exn" where
  "except_clauses e =
     (if is_cloudinary_Error e then HTTPException 500 (''Erro no upload: '' @ str e)
      else if is_Exception e then HTTPException 500 erro_interno
      else e)"

text \<open>The \<open>finally\<close> clause (source lines 102 to 105): the removal is not guarded.\<close>

definition finally_clause :: "string \<Rightarrow> world \<Rightarrow> (exn + unit) \<times> world" where
  "finally_clause file_name w =
     (if os_path_exists file_name w then os_remove file_name w else (Inr (), w))"

text \<open>
  Leaving the \<open>try\<close> statement with a pending outcome (a value to return or an exception
  to raise): the \<open>finally\<close> clause runs first, and an exception raised there replaces the
  pending outcome.
\<close>

definition leave_through_finally ::
  "exn + pyval \<Rightarrow> string \<Rightarrow> world \<Rightarrow> (exn + pyval) \<times> world" where
  "leave_through_finally pending file_name w =
     (case finally_clause file_name w of
        (Inl e, w') \<Rightarrow> (Inl e, w')
      | (Inr u, w') \<Rightarrow> (pending, w'))"

text \<open>
  \<open>gerar_audio_endpoint(dados, key)\<close>. The first argument after the providers is the module
  constant \<open>API_KEY_APP\<close>, which is \<open>os.getenv("API_KEY_APP")\<close>: \<open>None\<close> when the variable
  is not set. The query parameter \<open>key\<close> is declared \<open>str\<close>, so it is never \<open>None\<close>.
  The result is \<open>Inl\<close> of the exception raised or \<open>Inr\<close> of the value returned.
\<close>

definition gerar_audio_endpoint ::
  "providers \<Rightarrow> string option \<Rightarrow> TextRequest \<Rightarrow> string \<Rightarrow> world \<Rightarrow> (exn + pyval) \<times> world" where
  "gerar_audio_endpoint env API_KEY_APP dados key w =
     (if Some key \<noteq> API_KEY_APP then (Inl (HTTPException 401 chave_invalida), w)
      else if VOZES (voice_type dados) = None then (Inl (HTTPException 400 voz_invalida), w)
      else
        (let file_name = uuid dados @ ''.mp3'' in
         case try_block env dados file_name w of
           (Inl e, w1) \<Rightarrow> leave_through_finally (Inl (except_clauses e)) file_name w1
         | (Inr v, w1) \<Rightarrow> leave_through_finally (Inr v) file_name w1))"

subsection \<open>What the caller sees\<close>

text \<open>The status code of the \<open>HTTPException\<close> the handler raised, if it raised one.\<close>

fun raised_status :: "exn + pyval \<Rightarrow> int option" where
  "raised_status (Inl (HTTPException c d)) = Some c"
| "raised_status r = None"





subsection \<open>Concrete requests, providers and worlds\<close>

text \<open>
  The end-to-end scenario of the specification (key \<open>secret123\<close>, identifier
  \<open>abc-1\<close>, voice \<open>female\<close>) and variations of it, at which the theorems below are
  evaluated.
\<close>

definition ola_mundo :: string where
  "ola_mundo = ''Ol'' @ [CHR 0xC3, CHR 0xA1] @ '' mundo''"

definition example_request :: TextRequest where
  "example_request = \<lparr>uuid = ''abc-1'', text = ola_mundo, voice_type = ''female''\<rparr>"

definition robot_request :: TextRequest where
  "robot_request = \<lparr>uuid = ''abc-1'', text = ola_mundo, voice_type = ''robot''\<rparr>"

definition male_request :: TextRequest where
  "male_request = \<lparr>uuid = ''abc-2'', text = ola_mundo, voice_type = ''male''\<rparr>"

definition example_url :: string where
  "example_url = ''https://res.cloudinary.com/demo/video/upload/abc-1.mp3''"

definition providers_ok :: providers where
  "providers_ok =
     \<lparr>edge_tts_save = (\<lambda>txt voice file_name fs. (None, fs(file_name \<mapsto> RegularFile))),
      cloudinary_upload = (\<lambda>file_name resource_type public_id fs.
         (Inr [''public_id'' \<mapsto> PStr public_id, ''secure_url'' \<mapsto> PStr example_url], fs))\<rparr>"

definition providers_no_file :: providers where
  "providers_no_file = providers_ok\<lparr>edge_tts_save := (\<lambda>txt voice file_name fs. (None, fs))\<rparr>"

definition providers_upload_error :: providers where
  "providers_upload_error =
     providers_ok\<lparr>cloudinary_upload := (\<lambda>file_name resource_type public_id fs.
        (Inl (CloudinaryError ''Invalid Signature''), fs))\<rparr>"


definition providers_synthesis_fails :: providers where
  "providers_synthesis_fails =
     providers_ok\<lparr>edge_tts_save := (\<lambda>txt voice file_name fs.
        (Some (OtherException ''No audio was received''), fs))\<rparr>"

definition providers_selector_writes :: providers where
  "providers_selector_writes =
     providers_synthesis_fails\<lparr>edge_tts_save := (\<lambda>txt voice file_name fs.
        if voice = ''male'' then (None, fs(file_name \<mapsto> RegularFile))
        else (Some (OtherException ''No audio was received''), fs))\<rparr>"

definition empty_world :: world where
  "empty_world = \<lparr>files = Map.empty, calls = []\<rparr>"

definition stale_world :: world where
  "stale_world =
     \<lparr>files = [''abc-1.mp3'' \<mapsto> RegularFile, ''other.mp3'' \<mapsto> RegularFile], calls = []\<rparr>"

definition blocked_world :: world where
  "blocked_world = \<lparr>files = [''abc-1.mp3'' \<mapsto> Directory], calls = []\<rparr>"

section \<open>Properties of the handler\<close>

subsection \<open>Auxiliary facts\<close>

lemma voice_not_registered:
  "voice_type dados \<notin> {''male'', ''female''} \<Longrightarrow> VOZES (voice_type dados) = None"
  by (simp add: VOZES_def)

lemma voice_registered:
  "voice_type dados \<in> {''male'', ''female''} \<Longrightarrow>
   VOZES (voice_type dados) =
     Some (if voice_type dados = ''male'' then ''pt-BR-AntonioNeural'' else ''pt-BR-FranciscaNeural'')"
  by (auto simp: VOZES_def)

lemma finally_clause_calls: "calls (snd (finally_clause file_name w)) = calls w"
  by (simp add: finally_clause_def os_path_exists_def os_remove_def
      split: option.splits entry.splits)

lemma finally_clause_succeeds:
  assumes "removable_or_absent file_name w"
  shows "fst (finally_clause file_name w) = Inr ()"
    and "\<not> os_path_exists file_name (snd (finally_clause file_name w))"
  using assms
  by (auto simp: removable_or_absent_def finally_clause_def os_path_exists_def os_remove_def)

lemma leave_through_finally_calls:
  "calls (snd (leave_through_finally pending file_name w)) = calls w"
  using finally_clause_calls [of file_name w]
  by (auto simp: leave_through_finally_def split: prod.splits sum.splits)

lemma leave_through_finally_succeeds:
  assumes "removable_or_absent file_name w"
  shows "fst (leave_through_finally pending file_name w) = pending"
    and "\<not> os_path_exists file_name (snd (leave_through_finally pending file_name w))"
  using finally_clause_succeeds [OF assms]
  by (auto simp: leave_through_finally_def split: prod.splits sum.splits)

lemma leave_through_finally_absent:
  assumes "\<not> os_path_exists file_name w"
  shows "leave_through_finally pending file_name w = (pending, w)"
  using assms by (simp add: leave_through_finally_def finally_clause_def)

lemma gerar_audio_calls:
  "gerar_audio env txt voice file_name w = (r, w1) \<Longrightarrow>
   calls w1 = calls w @ [Synthesis txt voice file_name]"
  by (auto simp: gerar_audio_def split: prod.splits)

lemma uploader_upload_calls:
  "uploader_upload env file_name rt pid w = (r, w1) \<Longrightarrow>
   calls w1 = calls w @ [Upload file_name rt pid]"
  by (auto simp: uploader_upload_def split: prod.splits)

lemma try_block_synthesis_calls:
  assumes "VOZES (voice_type dados) = Some voice"
  shows "filter is_synthesis (calls (snd (try_block env dados file_name w))) =
         filter is_synthesis (calls w) @ [Synthesis (text dados) voice file_name]"
proof -
  obtain r w1 where g: "gerar_audio env (text dados) voice file_name w = (r, w1)"
    by (cases "gerar_audio env (text dados) voice file_name w")
  obtain r2 w2 where u: "uploader_upload env file_name ''video'' (uuid dados) w1 = (r2, w2)"
    by (cases "uploader_upload env file_name ''video'' (uuid dados) w1")
  show ?thesis
    using assms g u gerar_audio_calls [OF g] uploader_upload_calls [OF u]
    by (auto simp: try_block_def dict_getitem_def split: sum.splits)
qed

lemma try_block_depends_on_mapped_voice:
  assumes "VOZES (voice_type dados) = Some voice"
    and "cloudinary_upload env' = cloudinary_upload env"
    and "edge_tts_save env' (text dados) voice file_name (files w) =
         edge_tts_save env (text dados) voice file_name (files w)"
  shows "try_block env' dados file_name w = try_block env dados file_name w"
proof -
  have u: "uploader_upload env' = uploader_upload env"
    by (intro ext) (simp add: uploader_upload_def assms(2))
  have g: "gerar_audio env' (text dados) voice file_name w =
      gerar_audio env (text dados) voice file_name w"
    by (simp add: gerar_audio_def assms(3))
  show ?thesis
    unfolding try_block_def u by (simp add: dict_getitem_def assms(1) g)
qed

lemma try_block_synthesis_raises:
  assumes "VOZES (voice_type dados) = Some voice"
    and "edge_tts_save env (text dados) voice file_name (files w) = (Some e, fs)"
  shows "try_block env dados file_name w =
         (Inl e, w\<lparr>files := fs, calls := calls w @ [Synthesis (text dados) voice file_name]\<rparr>)"
  using assms by (simp add: try_block_def dict_getitem_def gerar_audio_def)

lemma endpoint_passes_checks:
  assumes "API_KEY_APP = Some key" and "VOZES (voice_type dados) = Some voice"
  shows "gerar_audio_endpoint env API_KEY_APP dados key w =
         (case try_block env dados (uuid dados @ ''.mp3'') w of
            (Inl e, w1) \<Rightarrow>
              leave_through_finally (Inl (except_clauses e)) (uuid dados @ ''.mp3'') w1
          | (Inr v, w1) \<Rightarrow> leave_through_finally (Inr v) (uuid dados @ ''.mp3'') w1)"
  using assms by (simp add: gerar_audio_endpoint_def Let_def)

lemma endpoint_world:
  assumes "API_KEY_APP = Some key" and "VOZES (voice_type dados) = Some voice"
  shows "\<exists>pending. gerar_audio_endpoint env API_KEY_APP dados key w =
           leave_through_finally pending (uuid dados @ ''.mp3'')
             (snd (try_block env dados (uuid dados @ ''.mp3'') w))"
  using assms by (auto simp: endpoint_passes_checks split: prod.splits sum.splits)

lemma missing_file_outcome:
  assumes "API_KEY_APP = Some key"
    and "VOZES (voice_type dados) = Some voice"
    and "gerar_audio env (text dados) voice (uuid dados @ ''.mp3'') w = (Inr (), w1)"
    and "\<not> os_path_exists (uuid dados @ ''.mp3'') w1"
  shows "gerar_audio_endpoint env API_KEY_APP dados key w =
           (Inl (HTTPException 500 erro_interno), w1)"
  using assms
  by (simp add: endpoint_passes_checks try_block_def dict_getitem_def except_clauses_def
      leave_through_finally_absent)

subsection \<open>The claims\<close>

text \<open>
  Claim C1. The claim says that once a request has passed the key check and the voice
  check, the file \<open>{uuid}.mp3\<close> does not exist when the handler is done, on every path.
  The \<open>finally\<close> clause calls \<open>os.remove\<close> on whatever exists at that path, and
  \<open>os.remove\<close> cannot unlink a directory: with a directory \<open>abc-1.mp3\<close> in place and a
  synthesis that fails, the handler leaves with the \<open>OSError\<close> of the removal and the path
  still exists.
\<close>
theorem temp_file_blocked_counterexample:
  "VOZES (voice_type example_request) \<noteq> None
   \<and> fst (gerar_audio_endpoint providers_synthesis_fails (Some ''secret123'')
            example_request ''secret123'' blocked_world) = Inl (OSError ''Is a directory'')
   \<and> os_path_exists (uuid example_request @ ''.mp3'')
        (snd (gerar_audio_endpoint providers_synthesis_fails (Some ''secret123'')
                example_request ''secret123'' blocked_world))"
  by (simp add: gerar_audio_endpoint_def try_block_def except_clauses_def finally_clause_def
      leave_through_finally_def gerar_audio_def os_path_exists_def os_remove_def
      dict_getitem_def example_request_def providers_synthesis_fails_def providers_ok_def
      blocked_world_def VOZES_def Let_def)

text \<open>
  Claim C1, amended. Once a request has passed the key check and the voice check, the
  file \<open>{uuid}.mp3\<close> does not exist when the handler is done, whatever the providers did
  (returned, raised any exception, created or deleted any files) and whether the handler
  returns or raises, provided that what is at that path when the \<open>try\<close> block is left
  is nothing or a regular file that the process may delete.
\<close>
theorem temp_file_removed_on_every_path:
  assumes "API_KEY_APP = Some key" and "VOZES (voice_type dados) \<noteq> None"
    and "removable_or_absent (uuid dados @ ''.mp3'')
           (snd (try_block env dados (uuid dados @ ''.mp3'') w))"
  shows "\<not> os_path_exists (uuid dados @ ''.mp3'')
             (snd (gerar_audio_endpoint env API_KEY_APP dados key w))"
proof -
  from assms(2) obtain voice where "VOZES (voice_type dados) = Some voice" by auto
  with assms(1) obtain pending where
    "gerar_audio_endpoint env API_KEY_APP dados key w =
       leave_through_finally pending (uuid dados @ ''.mp3'')
         (snd (try_block env dados (uuid dados @ ''.mp3'') w))"
    using endpoint_world by blast
  with leave_through_finally_succeeds(2) [OF assms(3)] show ?thesis
    by simp
qed

theorem temp_file_removed_witness:
  "Some ''secret123'' = Some ''secret123'' \<and> VOZES (voice_type example_request) \<noteq> None
   \<and> removable_or_absent (uuid example_request @ ''.mp3'')
        (snd (try_block providers_upload_error example_request
                (uuid example_request @ ''.mp3'') stale_world))
   \<and> os_path_exists (uuid example_request @ ''.mp3'') stale_world
   \<and> \<not> os_path_exists (uuid example_request @ ''.mp3'')
         (snd (gerar_audio_endpoint providers_upload_error (Some ''secret123'')
                 example_request ''secret123'' stale_world))"
  using temp_file_removed_on_every_path
    [of "Some ''secret123''" "''secret123''" example_request providers_upload_error stale_world]
  by (simp add: try_block_def gerar_audio_def uploader_upload_def dict_getitem_def
      os_path_exists_def removable_or_absent_def
      example_request_def providers_upload_error_def providers_ok_def stale_world_def VOZES_def)

text \<open>
  Claim C2. When the supplied key differs from the configured access key, the handler
  raises \<open>HTTPException\<close> with status 401 and leaves the world as it found it: the log
  of calls is unchanged, so neither the synthesis nor the upload was invoked.
\<close>
theorem wrong_key_is_401_without_calls:
  assumes "Some key \<noteq> API_KEY_APP"
  shows "gerar_audio_endpoint env API_KEY_APP dados key w =
           (Inl (HTTPException 401 chave_invalida), w)
         \<and> raised_status (fst (gerar_audio_endpoint env API_KEY_APP dados key w)) = Some 401
         \<and> calls (snd (gerar_audio_endpoint env API_KEY_APP dados key w)) = calls w"
  using assms by (simp add: gerar_audio_endpoint_def)

theorem wrong_key_witness:
  "Some ''wrong-key'' \<noteq> Some ''secret123''
   \<and> gerar_audio_endpoint providers_ok (Some ''secret123'') example_request ''wrong-key'' stale_world =
       (Inl (HTTPException 401 chave_invalida), stale_world)
   \<and> raised_status (fst (gerar_audio_endpoint providers_ok (Some ''secret123'')
        example_request ''wrong-key'' stale_world)) = Some 401
   \<and> calls (snd (gerar_audio_endpoint providers_ok (Some ''secret123'')
        example_request ''wrong-key'' stale_world)) = calls stale_world"
  using wrong_key_is_401_without_calls
    [of "''wrong-key''" "Some ''secret123''" providers_ok example_request stale_world]
  by simp

text \<open>
  Claim C3. The claim says that every request whose voice selector is neither \<open>male\<close>
  nor \<open>female\<close> fails with status 400. A request that also carries a wrong key fails
  with 401 instead, since the key is checked first.
\<close>
theorem invalid_voice_alone_counterexample:
  "voice_type robot_request \<notin> {''male'', ''female''}
   \<and> raised_status (fst (gerar_audio_endpoint providers_ok (Some ''secret123'')
        robot_request ''wrong-key'' empty_world)) = Some 401
   \<and> raised_status (fst (gerar_audio_endpoint providers_ok (Some ''secret123'')
        robot_request ''wrong-key'' empty_world)) \<noteq> Some 400"
  by (simp add: gerar_audio_endpoint_def robot_request_def)

text \<open>
  Claim C3, amended. When the supplied key equals the configured access key and the voice
  selector is neither \<open>male\<close> nor \<open>female\<close>, the handler raises \<open>HTTPException\<close>
  with status 400, and neither the synthesis nor the upload is invoked.
\<close>
theorem invalid_voice_is_400_without_calls:
  assumes "API_KEY_APP = Some key" and "voice_type dados \<notin> {''male'', ''female''}"
  shows "gerar_audio_endpoint env API_KEY_APP dados key w =
           (Inl (HTTPException 400 voz_invalida), w)
         \<and> raised_status (fst (gerar_audio_endpoint env API_KEY_APP dados key w)) = Some 400
         \<and> calls (snd (gerar_audio_endpoint env API_KEY_APP dados key w)) = calls w"
  using assms(1) voice_not_registered [OF assms(2)]
  by (simp add: gerar_audio_endpoint_def)

theorem invalid_voice_witness:
  "Some ''secret123'' = Some ''secret123''
   \<and> voice_type robot_request \<notin> {''male'', ''female''}
   \<and> gerar_audio_endpoint providers_ok (Some ''secret123'') robot_request ''secret123'' stale_world =
       (Inl (HTTPException 400 voz_invalida), stale_world)"
  using invalid_voice_is_400_without_calls
    [of "Some ''secret123''" "''secret123''" robot_request providers_ok stale_world]
  by (simp add: robot_request_def)

text \<open>
  Claim C4. The key is checked before the voice: a request with a wrong key and an
  invalid voice selector fails with status 401.
\<close>
theorem key_checked_before_voice:
  assumes "Some key \<noteq> API_KEY_APP" and "voice_type dados \<notin> {''male'', ''female''}"
  shows "raised_status (fst (gerar_audio_endpoint env API_KEY_APP dados key w)) = Some 401"
  using assms by (simp add: gerar_audio_endpoint_def)

theorem key_checked_before_voice_witness:
  "Some ''wrong-key'' \<noteq> Some ''secret123''
   \<and> voice_type robot_request \<notin> {''male'', ''female''}
   \<and> raised_status (fst (gerar_audio_endpoint providers_ok (Some ''secret123'')
        robot_request ''wrong-key'' empty_world)) = Some 401"
  using key_checked_before_voice
    [of "''wrong-key''" "Some ''secret123''" robot_request providers_ok empty_world]
  by (simp add: robot_request_def)

text \<open>
  Claim C5. With a valid key and a voice selector \<open>male\<close> or \<open>female\<close>, the handler
  invokes the synthesis with the provider voice, \<open>pt-BR-AntonioNeural\<close> for \<open>male\<close>
  and \<open>pt-BR-FranciscaNeural\<close> for \<open>female\<close>, never with the selector itself. Stated on
  the synthesis provider \<open>edge_tts_save\<close>: the handler's result is the same for any two
  providers that agree at the request's text, the provider voice, the file name and the
  directory found, however they differ elsewhere (at the raw selector, say); the answer
  the provider gives there is the one the handler goes on with (when it raises and leaves
  nothing at the path, the handler raises what the \<open>except\<close> clauses make of that
  exception and leaves the provider's directory); and the log holds that one synthesis
  call.
\<close>
theorem synthesis_gets_provider_voice:
  assumes "API_KEY_APP = Some key"
    and "voice_type dados \<in> {''male'', ''female''}"
    and "voice = (if voice_type dados = ''male'' then ''pt-BR-AntonioNeural''
                  else ''pt-BR-FranciscaNeural'')"
    and "cloudinary_upload env' = cloudinary_upload env"
    and "edge_tts_save env' (text dados) voice (uuid dados @ ''.mp3'') (files w) =
         edge_tts_save env (text dados) voice (uuid dados @ ''.mp3'') (files w)"
  shows "gerar_audio_endpoint env' API_KEY_APP dados key w =
           gerar_audio_endpoint env API_KEY_APP dados key w
         \<and> (edge_tts_save env (text dados) voice (uuid dados @ ''.mp3'') (files w) = (Some e, fs)
              \<longrightarrow> fs (uuid dados @ ''.mp3'') = None
              \<longrightarrow> gerar_audio_endpoint env API_KEY_APP dados key w =
                   (Inl (except_clauses e),
                    w\<lparr>files := fs,
                      calls := calls w @ [Synthesis (text dados) voice (uuid dados @ ''.mp3'')]\<rparr>))
         \<and> filter is_synthesis (calls (snd (gerar_audio_endpoint env API_KEY_APP dados key w))) =
             filter is_synthesis (calls w) @
               [Synthesis (text dados) voice (uuid dados @ ''.mp3'')]"
proof -
  have v: "VOZES (voice_type dados) = Some voice"
    using voice_registered [OF assms(2)] assms(3) by simp
  have same: "gerar_audio_endpoint env' API_KEY_APP dados key w =
      gerar_audio_endpoint env API_KEY_APP dados key w"
    using assms(1) v try_block_depends_on_mapped_voice [OF v assms(4) assms(5)]
    by (simp add: endpoint_passes_checks)
  have raises: "gerar_audio_endpoint env API_KEY_APP dados key w =
      (Inl (except_clauses e),
       w\<lparr>files := fs, calls := calls w @ [Synthesis (text dados) voice (uuid dados @ ''.mp3'')]\<rparr>)"
    if "edge_tts_save env (text dados) voice (uuid dados @ ''.mp3'') (files w) = (Some e, fs)"
      and "fs (uuid dados @ ''.mp3'') = None"
    using assms(1) v try_block_synthesis_raises [OF v that(1)] that(2)
    by (simp add: endpoint_passes_checks leave_through_finally_absent os_path_exists_def)
  obtain pending where
    "gerar_audio_endpoint env API_KEY_APP dados key w =
       leave_through_finally pending (uuid dados @ ''.mp3'')
         (snd (try_block env dados (uuid dados @ ''.mp3'') w))"
    using endpoint_world [OF assms(1) v] by blast
  then have logged:
    "filter is_synthesis (calls (snd (gerar_audio_endpoint env API_KEY_APP dados key w))) =
       filter is_synthesis (calls w) @ [Synthesis (text dados) voice (uuid dados @ ''.mp3'')]"
    by (simp add: leave_through_finally_calls try_block_synthesis_calls [OF v])
  from same raises logged show ?thesis by blast
qed

theorem synthesis_gets_provider_voice_witness:
  "Some ''secret123'' = Some ''secret123''
   \<and> voice_type male_request \<in> {''male'', ''female''}
   \<and> cloudinary_upload providers_selector_writes = cloudinary_upload providers_synthesis_fails
   \<and> edge_tts_save providers_selector_writes (text male_request) ''pt-BR-AntonioNeural''
        (uuid male_request @ ''.mp3'') (files empty_world) =
      edge_tts_save providers_synthesis_fails (text male_request) ''pt-BR-AntonioNeural''
        (uuid male_request @ ''.mp3'') (files empty_world)
   \<and> edge_tts_save providers_selector_writes (text male_request) ''male''
        (uuid male_request @ ''.mp3'') (files empty_world) \<noteq>
      edge_tts_save providers_synthesis_fails (text male_request) ''male''
        (uuid male_request @ ''.mp3'') (files empty_world)
   \<and> gerar_audio_endpoint providers_selector_writes (Some ''secret123'') male_request
        ''secret123'' empty_world =
      gerar_audio_endpoint providers_synthesis_fails (Some ''secret123'') male_request
        ''secret123'' empty_world
   \<and> gerar_audio_endpoint providers_synthesis_fails (Some ''secret123'') male_request
        ''secret123'' empty_world =
      (Inl (HTTPException 500 erro_interno),
       \<lparr>files = Map.empty,
         calls = [Synthesis ola_mundo ''pt-BR-AntonioNeural'' ''abc-2.mp3'']\<rparr>)
   \<and> filter is_synthesis (calls (snd (gerar_audio_endpoint providers_synthesis_fails
        (Some ''secret123'') male_request ''secret123'' empty_world))) =
       [Synthesis ola_mundo ''pt-BR-AntonioNeural'' ''abc-2.mp3'']"
  using synthesis_gets_provider_voice
    [of "Some ''secret123''" "''secret123''" male_request "''pt-BR-AntonioNeural''"
        providers_selector_writes providers_synthesis_fails empty_world
        "OtherException ''No audio was received''" Map.empty]
  by (simp add: male_request_def empty_world_def providers_selector_writes_def
      providers_synthesis_fails_def providers_ok_def except_clauses_def)

text \<open>
  Claim C6. The claim says that when the synthesis returns without error and the file is
  missing afterwards, the handler fails with status 500 and a detail saying that the audio
  was not generated, without invoking the upload. The \<open>try\<close> block does raise that
  exception (line 65), but \<open>HTTPException\<close> derives from \<open>Exception\<close>, so the clause
  \<open>except Exception\<close> (line 97) catches it and raises another one with the generic detail
  \<open>Erro interno do servidor\<close>. Evaluated at the end-to-end scenario with a synthesis that
  writes no file: the status is 500, the upload is not invoked, and the detail that leaves
  the handler is the generic one.
\<close>
theorem missing_file_detail_is_generic:
  "fst (gerar_audio providers_no_file (text example_request) ''pt-BR-FranciscaNeural''
          ''abc-1.mp3'' empty_world) = Inr ()
   \<and> \<not> os_path_exists ''abc-1.mp3''
        (snd (gerar_audio providers_no_file (text example_request) ''pt-BR-FranciscaNeural''
                ''abc-1.mp3'' empty_world))
   \<and> fst (try_block providers_no_file example_request ''abc-1.mp3'' empty_world) =
        Inl (HTTPException 500 audio_nao_gerado)
   \<and> fst (gerar_audio_endpoint providers_no_file (Some ''secret123'') example_request
            ''secret123'' empty_world) = Inl (HTTPException 500 erro_interno)
   \<and> filter is_upload (calls (snd (gerar_audio_endpoint providers_no_file (Some ''secret123'')
            example_request ''secret123'' empty_world))) = []
   \<and> erro_interno \<noteq> audio_nao_gerado"
  by (simp add: gerar_audio_endpoint_def try_block_def except_clauses_def finally_clause_def
      leave_through_finally_def gerar_audio_def uploader_upload_def os_path_exists_def os_remove_def dict_getitem_def
      example_request_def providers_no_file_def providers_ok_def empty_world_def VOZES_def
      erro_interno_def audio_nao_gerado_def)





text \<open>
  Claim C9. When the access key is absent from the environment, so that \<open>API_KEY_APP\<close>
  is \<open>None\<close>, every request fails with status 401 whatever key it supplies, and the world
  is left as it was.
\<close>
theorem unset_access_key_rejects_every_request:
  "gerar_audio_endpoint env None dados key w = (Inl (HTTPException 401 chave_invalida), w)
   \<and> raised_status (fst (gerar_audio_endpoint env None dados key w)) = Some 401"
  by (simp add: gerar_audio_endpoint_def)



end
